theory Spec2Isabelle
  imports Complex_Main "HOL-Library.Log_Nat" "HOL-Library.Word"
begin

section \<open>Python values used by \<open>seed_revenue.py\<close>\<close>

subsection \<open>Exceptions of the computation\<close>

text \<open>
  The exceptions that the arithmetic, the dictionary lookups and the calendar functions of
  the script can raise. Every \<open>raise\<close> of the modelled code is a value \<open>Inl e\<close>.
\<close>

datatype error = KeyError | ZeroDivisionError | OverflowError | ValueError | IllegalMonthError

subsection \<open>Binary64 floating point\<close>

text \<open>
  A Python \<open>float\<close> is an IEEE-754 binary64 number. Finite values are modelled by the
  rational number they denote (signed zeros are identified: no operation of the script
  can tell them apart), the other values are the two infinities and NaN.
\<close>

datatype pyfloat = Fin rat | PInf | NInf | NaN

text \<open>
  Rounding to the nearest integer, ties to the even one. This is both the rule by which
  every binary64 operation rounds its significand and Python's \<open>round(x)\<close> on a float.
\<close>

definition round_half_even :: "rat \<Rightarrow> int" where
  "round_half_even x =
     (let n = \<lfloor>x\<rfloor>; d = x - of_int n
      in if d < 1 / 2 then n else if 1 / 2 < d then n + 1 else if even n then n else n + 1)"

text \<open>\<open>ilog2 x\<close> is \<open>\<lfloor>log\<^sub>2 x\<rfloor>\<close> for a positive rational, computed from the bit lengths of
  numerator and denominator.\<close>

definition ilog2 :: "rat \<Rightarrow> int" where
  "ilog2 x = (case quotient_of x of (p, q) \<Rightarrow>
      let e = bitlen p - bitlen q in if 2 powi e \<le> x then e else e - 1)"

text \<open>
  The exponent of the unit in the last place of \<open>x\<close>: 53 significant bits for normal
  numbers, the fixed exponent \<open>-1074\<close> in the subnormal range.
\<close>

definition fexp :: "rat \<Rightarrow> int" where
  "fexp x = max (ilog2 \<bar>x\<bar> - 52) (- 1074)"

text \<open>Round to nearest, ties to even, onto the binary64 grid (exponent unbounded above).\<close>

definition rd :: "rat \<Rightarrow> rat" where
  "rd x = (if x = 0 then 0
           else of_int (round_half_even (x / 2 powi (fexp x))) * 2 powi (fexp x))"

text \<open>The result of an operation whose exact value is \<open>x\<close>: rounded, and infinite when
  the rounded value leaves the binary64 range.\<close>

definition fl :: "rat \<Rightarrow> pyfloat" where
  "fl x = (let r = rd x
           in if 2 ^ 1024 \<le> r then PInf else if r \<le> - (2 ^ 1024) then NInf else Fin r)"

definition inf_times :: "rat \<Rightarrow> pyfloat" where
  "inf_times a = (if a = 0 then NaN else if 0 < a then PInf else NInf)"

fun float_neg :: "pyfloat \<Rightarrow> pyfloat" where
  "float_neg (Fin a) = Fin (- a)"
| "float_neg PInf = NInf"
| "float_neg NInf = PInf"
| "float_neg NaN = NaN"

fun float_mul :: "pyfloat \<Rightarrow> pyfloat \<Rightarrow> pyfloat" where
  "float_mul (Fin a) (Fin b) = fl (a * b)"
| "float_mul (Fin a) PInf = inf_times a"
| "float_mul (Fin a) NInf = inf_times (- a)"
| "float_mul PInf (Fin b) = inf_times b"
| "float_mul NInf (Fin b) = inf_times (- b)"
| "float_mul PInf PInf = PInf"
| "float_mul PInf NInf = NInf"
| "float_mul NInf PInf = NInf"
| "float_mul NInf NInf = PInf"
| "float_mul NaN _ = NaN"
| "float_mul _ NaN = NaN"

fun float_add :: "pyfloat \<Rightarrow> pyfloat \<Rightarrow> pyfloat" where
  "float_add (Fin a) (Fin b) = fl (a + b)"
| "float_add (Fin a) PInf = PInf"
| "float_add (Fin a) NInf = NInf"
| "float_add PInf (Fin b) = PInf"
| "float_add NInf (Fin b) = NInf"
| "float_add PInf PInf = PInf"
| "float_add NInf NInf = NInf"
| "float_add PInf NInf = NaN"
| "float_add NInf PInf = NaN"
| "float_add NaN _ = NaN"
| "float_add _ NaN = NaN"

definition float_sub :: "pyfloat \<Rightarrow> pyfloat \<Rightarrow> pyfloat" where
  "float_sub x y = float_add x (float_neg y)"

text \<open>Python's \<open>x / y\<close> on floats raises \<open>ZeroDivisionError\<close> for a zero divisor.\<close>

fun float_truediv :: "pyfloat \<Rightarrow> pyfloat \<Rightarrow> error + pyfloat" where
  "float_truediv x (Fin b) =
     (if b = 0 then Inl ZeroDivisionError
      else Inr (case x of Fin a \<Rightarrow> fl (a / b) | PInf \<Rightarrow> inf_times b
                | NInf \<Rightarrow> inf_times (- b) | NaN \<Rightarrow> NaN))"
| "float_truediv (Fin a) PInf = Inr (Fin 0)"
| "float_truediv (Fin a) NInf = Inr (Fin 0)"
| "float_truediv x y = Inr NaN"

text \<open>
  A float literal of the source and the conversion of an \<open>int\<close> operand in mixed
  arithmetic are both correctly rounded. (CPython raises \<open>OverflowError\<close> when an int
  beyond the binary64 range is converted; the script converts only its own constants.)
\<close>

definition float_lit :: "rat \<Rightarrow> pyfloat" where
  "float_lit x = fl x"

definition float_of_int :: "int \<Rightarrow> pyfloat" where
  "float_of_int n = fl (of_int n)"

text \<open>\<open>round(x)\<close> with one argument returns an \<open>int\<close>; it raises on infinities and NaN.\<close>

fun py_round :: "pyfloat \<Rightarrow> error + int" where
  "py_round (Fin r) = Inr (round_half_even r)"
| "py_round PInf = Inl OverflowError"
| "py_round NInf = Inl OverflowError"
| "py_round NaN = Inl ValueError"

subsection \<open>The global random source\<close>

text \<open>
  The module-level generator of \<open>random\<close> is global mutable state. \<open>random.random()\<close>
  returns \<open>k / 2\<^sup>5\<^sup>3\<close> for a 53-bit integer \<open>k\<close> and advances the generator. Its state
  is modelled by the sequence of 53-bit integers it is still going to produce.
  \<open>random.seed(s)\<close> replaces the state by one that depends on \<open>s\<close> only; the seeding
  function of the library is a parameter \<open>sd\<close> of the model.
\<close>

type_synonym rng = "nat \<Rightarrow> 53 word"

definition random_random :: "rng \<Rightarrow> pyfloat \<times> rng" where
  "random_random g = (Fin (of_int (uint (g 0)) / 2 ^ 53), \<lambda>i. g (Suc i))"

text \<open>\<open>random.uniform(a, b)\<close> is \<open>a + (b - a) * random()\<close>. With \<open>int\<close> end points the
  difference is taken on integers and converted when it meets the float.\<close>

definition uniform :: "pyfloat \<Rightarrow> pyfloat \<Rightarrow> rng \<Rightarrow> pyfloat \<times> rng" where
  "uniform a b g =
     (case random_random g of (u, g') \<Rightarrow> (float_add a (float_mul (float_sub b a) u), g'))"

definition uniform_int :: "int \<Rightarrow> int \<Rightarrow> rng \<Rightarrow> pyfloat \<times> rng" where
  "uniform_int a b g =
     (case random_random g of (u, g') \<Rightarrow>
        (float_add (float_of_int a) (float_mul (float_of_int (b - a)) u), g'))"

section \<open>The constants of the script\<close>

record branch_info =
  name :: string
  multiplier :: pyfloat

text \<open>A Python dict iterates in insertion order, so \<open>BRANCHES\<close> is an association list.\<close>

definition BRANCHES :: "(string \<times> branch_info) list" where
  "BRANCHES =
     [(''HCM'', \<lparr>name = ''Ho Chi Minh'', multiplier = float_lit 1\<rparr>),
      (''HN'', \<lparr>name = ''Ha Noi'', multiplier = float_lit (85 / 100)\<rparr>),
      (''DN'', \<lparr>name = ''Da Nang'', multiplier = float_lit (6 / 10)\<rparr>)]"

definition QUARTERLY_MULTIPLIERS :: "int \<rightharpoonup> pyfloat" where
  "QUARTERLY_MULTIPLIERS =
     [1 \<mapsto> float_lit (90 / 100), 2 \<mapsto> float_lit 1,
      3 \<mapsto> float_lit (105 / 100), 4 \<mapsto> float_lit (115 / 100)]"

definition YEAR_MULTIPLIERS :: "int \<rightharpoonup> pyfloat" where
  "YEAR_MULTIPLIERS = [2024 \<mapsto> float_lit 1, 2025 \<mapsto> float_lit (108 / 100)]"

definition BASE_REVENUE_MIN :: int where
  "BASE_REVENUE_MIN = 12000000000"

definition BASE_REVENUE_MAX :: int where
  "BASE_REVENUE_MAX = 20000000000"

definition NOISE_RANGE :: pyfloat where
  "NOISE_RANGE = float_lit (10 / 100)"

section \<open>The functions of the script\<close>

text \<open>\<open>get_quarter\<close>: Python's \<open>//\<close> on ints is floor division, as \<open>div\<close> on \<open>int\<close>.\<close>

definition get_quarter :: "int \<Rightarrow> int" where
  "get_quarter month = (month - 1) div 3 + 1"

text \<open>
  \<open>generate_revenue\<close>. The global random state goes in and comes out; it is returned
  also when the call raises, because the draws made before the exception stay made.
\<close>

definition generate_revenue ::
  "(int \<Rightarrow> rng) \<Rightarrow> pyfloat \<Rightarrow> int \<Rightarrow> int \<Rightarrow> int option \<Rightarrow> rng \<Rightarrow> (error + int) \<times> rng" where
  "generate_revenue sd branch_multiplier quarter year seed g0 =
     (let g1 = (case seed of None \<Rightarrow> g0 | Some s \<Rightarrow> sd s)
      in case uniform_int BASE_REVENUE_MIN BASE_REVENUE_MAX g1 of (base, g2) \<Rightarrow>
         let revenue = float_mul base branch_multiplier
         in case QUARTERLY_MULTIPLIERS quarter of
              None \<Rightarrow> (Inl KeyError, g2)
            | Some qm \<Rightarrow>
                let revenue = float_mul revenue qm
                in case YEAR_MULTIPLIERS year of
                     None \<Rightarrow> (Inl KeyError, g2)
                   | Some ym \<Rightarrow>
                       let revenue = float_mul revenue ym
                       in case uniform (float_sub (float_of_int 1) NOISE_RANGE)
                                 (float_add (float_of_int 1) NOISE_RANGE) g2 of
                            (noise, g3) \<Rightarrow>
                              let revenue = float_mul revenue noise
                              in case float_truediv revenue (float_of_int 1000000) of
                                   Inl e \<Rightarrow> (Inl e, g3)
                                 | Inr x \<Rightarrow>
                                     (case py_round x of
                                        Inl e \<Rightarrow> (Inl e, g3)
                                      | Inr n \<Rightarrow> (Inr (n * 1000000), g3)))"

section \<open>Quarter of a month\<close>

text \<open>
  Claim C6. For every month \<open>m\<close> from 1 to 12, \<open>get_quarter m\<close> equals
  \<open>((m - 1) // 3) + 1\<close>: months 1 to 3 give quarter 1, months 4 to 6 quarter 2,
  months 7 to 9 quarter 3 and months 10 to 12 quarter 4.
\<close>

theorem get_quarter_months:
  assumes "1 \<le> m" and "m \<le> 12"
  shows "get_quarter m = (m - 1) div 3 + 1 \<and>
         get_quarter m = (if m \<le> 3 then 1 else if m \<le> 6 then 2 else if m \<le> 9 then 3 else 4)"
  using assms unfolding get_quarter_def by auto

theorem get_quarter_months_witness:
  "map get_quarter [1, 3, 4, 6, 7, 9, 10, 12] = [1, 1, 2, 2, 3, 3, 4, 4]"
  using get_quarter_months [of 1] get_quarter_months [of 3] get_quarter_months [of 4]
    get_quarter_months [of 6] get_quarter_months [of 7] get_quarter_months [of 9]
    get_quarter_months [of 10] get_quarter_months [of 12]
  by simp

end
